theory Spec2Isabelle
  imports Complex_Main
begin

section \<open>Data model (models.py)\<close>

text \<open>
  The two Django models of the booking core, as records. A field of the source keeps its
  name; the two exceptions are \<open>TravelOption.type\<close>, written \<open>travel_type\<close>, and
  \<open>Booking.status\<close>, written \<open>booking_status\<close> (one theory cannot hold two record
  fields called \<open>status\<close>). The bookkeeping timestamps the framework fills in by itself
  (\<open>created_at\<close>, \<open>updated_at\<close>, \<open>booking_date\<close>) are no part of the booking rules and
  are left out.

  \<^item> A \<open>CharField\<close> is a \<open>string\<close>; the status fields are compared with string literals
    in the source, and they are strings here (\<open>choices\<close> is not enforced on \<open>save\<close>).
  \<^item> An \<open>IntegerField\<close> is a Python integer: \<open>int\<close>, unbounded, negative values
    included (validators run in forms, not in \<open>save\<close>).
  \<^item> A \<open>DecimalField\<close> is exact decimal arithmetic: \<open>rat\<close>.
  \<^item> A \<open>DateTimeField\<close> has microsecond resolution: an \<open>int\<close> counting microseconds
    since the epoch. The difference of two of them is a \<open>timedelta\<close>, again an \<open>int\<close>
    of microseconds.
  \<^item> The primary key is a \<open>UUIDField\<close>; on a \<open>Booking\<close> it is optional, since
    \<open>Booking.save\<close> asks whether it is set.
\<close>

type_synonym uuid = nat
type_synonym datetime = int
type_synonym decimal = rat

record TravelOption =
  travel_id :: uuid
  travel_code :: string
  travel_type :: string
  company_name :: string
  source :: string
  destination :: string
  departure_time :: datetime
  arrival_time :: datetime
  price :: decimal
  total_seats :: int
  available_seats :: int
  status :: string
  amenities :: string

record Booking =
  booking_id :: "uuid option"
  booking_reference :: string
  user :: nat
  travel_option_id :: uuid
  number_of_seats :: int
  total_price :: decimal
  booking_status :: string
  passenger_details :: "(string \<times> nat) list"
  contact_email :: string
  contact_phone :: string
  special_requirements :: string
  payment_id :: string
  cancelled_at :: "datetime option"
  cancellation_reason :: string

section \<open>TravelOption: seat inventory\<close>

text \<open>\<open>is_available\<close>: \<^verbatim>\<open>return self.available_seats > 0 and self.status == 'ACTIVE'\<close>\<close>

definition is_available :: "TravelOption \<Rightarrow> bool" where
  "is_available t = (available_seats t > 0 \<and> status t = ''ACTIVE'')"

text \<open>
  \<open>update_availability\<close>: subtract, then set the status when the new count is exactly 0,
  then \<open>save\<close>. The returned record is the saved row.
\<close>

definition update_availability :: "TravelOption \<Rightarrow> int \<Rightarrow> TravelOption" where
  "update_availability t seats_booked =
     (let t1 = t\<lparr>available_seats := available_seats t - seats_booked\<rparr>
      in if available_seats t1 = 0 then t1\<lparr>status := ''FULL''\<rparr> else t1)"

text \<open>
  \<open>cancel_seats\<close>: add, then turn a \<open>FULL\<close> option with a positive count back to
  \<open>ACTIVE\<close>, then \<open>save\<close>.
\<close>

definition cancel_seats :: "TravelOption \<Rightarrow> int \<Rightarrow> TravelOption" where
  "cancel_seats t seats_cancelled =
     (let t1 = t\<lparr>available_seats := available_seats t + seats_cancelled\<rparr>
      in if status t1 = ''FULL'' \<and> available_seats t1 > 0 then t1\<lparr>status := ''ACTIVE''\<rparr> else t1)"

section \<open>Booking (models.py)\<close>

text \<open>
  What a call reads from outside the two records is passed in:
  \<^item> each \<open>timezone.now()\<close> is a \<open>datetime\<close> argument of its own;
  \<^item> \<open>Env\<close> holds what \<open>Booking.save\<close> and the construction of a \<open>Booking\<close> draw:
    the text \<open>timezone.now().strftime('%Y%m%d%H%M')\<close>, the text \<open>str(uuid.uuid4())\<close>
    and the \<open>uuid.uuid4()\<close> that is the default of the primary key.
\<close>

record Env =
  strftime_now :: string
  uuid4_str :: string
  uuid4_pk :: uuid

text \<open>\<open>str.upper\<close> on ASCII letters.\<close>

definition upper_char :: "char \<Rightarrow> char" where
  "upper_char c =
     (let k = (of_char c :: nat) in if 97 \<le> k \<and> k \<le> 122 then char_of (k - 32) else c)"

definition upper :: "string \<Rightarrow> string" where
  "upper s = map upper_char s"

text \<open>
  \<open>Booking.save\<close>. An empty \<open>booking_reference\<close> is replaced by the first two letters
  of the travel type, the time stamp and four characters of a fresh UUID; a booking with
  no primary key gets its \<open>total_price\<close> from the travel option it refers to (\<open>t\<close>); then
  the framework's \<open>save\<close> stores the row, giving a missing primary key the field's
  default. A UUID object is always true in Python, so \<open>not self.pk\<close> holds exactly when
  there is no primary key.
\<close>

definition save :: "Booking \<Rightarrow> TravelOption \<Rightarrow> Env \<Rightarrow> Booking" where
  "save b t env =
     (let b1 = (if booking_reference b = []
                then b\<lparr>booking_reference :=
                        upper (take 2 (travel_type t)) @ strftime_now env
                          @ upper (take 4 (uuid4_str env))\<rparr>
                else b);
          b2 = (if booking_id b1 = None
                then b1\<lparr>total_price := price t * of_int (number_of_seats b1)\<rparr>
                else b1)
      in (if booking_id b2 = None then b2\<lparr>booking_id := Some (uuid4_pk env)\<rparr> else b2))"

text \<open>
  \<open>Booking.cancel\<close>: only a \<open>CONFIRMED\<close> booking is cancelled. The result is the
  returned boolean, the booking and the travel option the booking refers to, both as they
  are stored afterwards.
\<close>

definition cancel :: "Booking \<Rightarrow> TravelOption \<Rightarrow> string \<Rightarrow> datetime \<Rightarrow> Env \<Rightarrow> bool \<times> Booking \<times> TravelOption" where
  "cancel b t reason now env =
     (if booking_status b = ''CONFIRMED''
      then (let b1 = b\<lparr>booking_status := ''CANCELLED'', cancelled_at := Some now,
                       cancellation_reason := reason\<rparr>;
                t1 = cancel_seats t (number_of_seats b1)
            in (True, save b1 t1 env, t1))
      else (False, b, t))"

text \<open>\<open>Booking.confirm\<close>: only a \<open>PENDING\<close> booking is confirmed.\<close>

definition confirm :: "Booking \<Rightarrow> TravelOption \<Rightarrow> Env \<Rightarrow> bool \<times> Booking" where
  "confirm b t env =
     (if booking_status b = ''PENDING''
      then (True, save (b\<lparr>booking_status := ''CONFIRMED''\<rparr>) t env)
      else (False, b))"





section \<open>BookingForm (forms.py)\<close>

text \<open>
  The posted form: the seat count as the integer field parsed it, the text of the
  passenger names, the contact fields as cleaned, and one boolean for the validation of
  the fields the booking rules do not read (e-mail syntax, phone pattern, the terms check
  box).
\<close>

record BookingForm =
  f_number_of_seats :: int
  f_passenger_names :: string
  f_contact_email :: string
  f_contact_phone :: string
  f_special_requirements :: string
  f_other_fields_valid :: bool

text \<open>\<open>str.split('\n')\<close> and \<open>str.strip()\<close> (ASCII white space).\<close>

fun split_on :: "char \<Rightarrow> string \<Rightarrow> string list" where
  "split_on c [] = [[]]"
| "split_on c (x # xs) =
     (if x = c then [] # split_on c xs
      else (case split_on c xs of w # ws \<Rightarrow> (x # w) # ws | [] \<Rightarrow> [[x]]))"

definition is_space :: "char \<Rightarrow> bool" where
  "is_space c = (let k = (of_char c :: nat) in (9 \<le> k \<and> k \<le> 13) \<or> (28 \<le> k \<and> k \<le> 32))"

definition strip :: "string \<Rightarrow> string" where
  "strip s = rev (dropWhile is_space (rev (dropWhile is_space s)))"

text \<open>
  \<open>clean_passenger_names\<close>: the non-blank lines, stripped; a \<open>ValidationError\<close>
  (\<open>None\<close>) when their number is not the seat count.
\<close>

definition clean_passenger_names :: "BookingForm \<Rightarrow> string list option" where
  "clean_passenger_names form =
     (let names = filter (\<lambda>name. name \<noteq> [])
                    (map strip (split_on (CHR 0x0A) (f_passenger_names form)))
      in if int (length names) \<noteq> f_number_of_seats form then None else Some names)"

text \<open>
  \<open>is_valid\<close>: the form's own cleaning and the validators of the model field
  \<open>number_of_seats\<close> (\<open>MinValueValidator(1)\<close>, \<open>MaxValueValidator(10)\<close>). The
  \<open>max_seats\<close> argument of the form only sets a widget attribute and a help text.
\<close>

definition is_valid :: "BookingForm \<Rightarrow> bool" where
  "is_valid form =
     (1 \<le> f_number_of_seats form \<and> f_number_of_seats form \<le> 10
      \<and> clean_passenger_names form \<noteq> None \<and> f_other_fields_valid form)"

text \<open>
  \<open>BookingForm.save(commit=False)\<close>: a new \<open>Booking\<close> with the model's defaults (a
  primary key from \<open>uuid.uuid4\<close>, status \<open>PENDING\<close>), the posted fields, and the
  passenger names numbered from 1. \<open>user\<close>, \<open>travel_option\<close> and \<open>total_price\<close> are
  not form fields: they are unset until the view assigns them, and stand here as 0.
\<close>

definition form_save :: "BookingForm \<Rightarrow> Env \<Rightarrow> Booking" where
  "form_save form env =
     (let names = (case clean_passenger_names form of Some ns \<Rightarrow> ns | None \<Rightarrow> [])
      in \<lparr>booking_id = Some (uuid4_pk env), booking_reference = [], user = 0,
          travel_option_id = 0, number_of_seats = f_number_of_seats form, total_price = 0,
          booking_status = ''PENDING'',
          passenger_details = zip names [1 ..< Suc (length names)],
          contact_email = f_contact_email form, contact_phone = f_contact_phone form,
          special_requirements = f_special_requirements form, payment_id = [],
          cancelled_at = None, cancellation_reason = []\<rparr>)"

section \<open>Views (views.py)\<close>

text \<open>
  A view gets the row that \<open>get_object_or_404\<close> looked up (\<open>None\<close>: no such row, the
  view raises \<open>Http404\<close>) and the request; it returns the response, the flashed message
  and the rows as they are stored afterwards.
\<close>

datatype Http404 = Http404

datatype message =
    Error_no_longer_available
  | Error_only_seats_available int
  | Success_booking_confirmed string
  | Error_cannot_be_cancelled
  | Success_booking_cancelled rat
  | Error_failed_to_cancel

datatype response =
    Redirect_travel_detail
  | Redirect_booking_detail
  | Redirect_my_bookings
  | Render_book_travel

record HttpRequest =
  req_method :: string
  req_user :: nat
  req_POST :: BookingForm
  req_cancellation_reason :: string

definition book_travel_view ::
  "TravelOption option \<Rightarrow> HttpRequest \<Rightarrow> Env
     \<Rightarrow> Http404 + (response \<times> message option \<times> TravelOption \<times> Booking option)" where
  "book_travel_view found request env =
     (case found of
        None \<Rightarrow> Inl Http404
      | Some travel \<Rightarrow>
          if \<not> is_available travel
          then Inr (Redirect_travel_detail, Some Error_no_longer_available, travel, None)
          else if req_method request = ''POST''
          then (let form = req_POST request in
                if is_valid form
                then (if available_seats travel < f_number_of_seats form
                      then Inr (Redirect_travel_detail,
                                Some (Error_only_seats_available (available_seats travel)),
                                travel, None)
                      else (let booking0 = form_save form env;
                                booking1 = booking0\<lparr>user := req_user request,
                                                    travel_option_id := travel_id travel\<rparr>;
                                booking2 = booking1\<lparr>total_price :=
                                             price travel * of_int (number_of_seats booking1)\<rparr>;
                                booking = save booking2 travel env;
                                travel' = update_availability travel (number_of_seats booking)
                            in Inr (Redirect_booking_detail,
                                    Some (Success_booking_confirmed (booking_reference booking)),
                                    travel', Some booking)))
                else Inr (Render_book_travel, None, travel, None))
          else Inr (Render_book_travel, None, travel, None))"


text \<open>
  The booking \<open>book_travel_view\<close> stores for a valid posted form: what \<open>form.save\<close>
  built, with the user, the travel option and the total price the view assigns, saved.
\<close>

definition new_booking :: "TravelOption \<Rightarrow> HttpRequest \<Rightarrow> Env \<Rightarrow> Booking" where
  "new_booking t request env =
     save ((form_save (req_POST request) env)
             \<lparr>user := req_user request, travel_option_id := travel_id t,
              total_price := price t * of_int (f_number_of_seats (req_POST request))\<rparr>) t env"

section \<open>The specification's inventory operations\<close>

text \<open>
  \<open>reserveSeats\<close> as the specification words it (section 4.1): it fails with
  \<open>InventoryError::Unavailable\<close> if the status is not \<open>ACTIVE\<close> or \<open>n\<close> exceeds the
  available seats, and otherwise decrements and sets \<open>FULL\<close> on reaching 0. It is here to
  be compared with \<open>update_availability\<close>.
\<close>

datatype InventoryError = Unavailable

definition reserveSeats_spec :: "TravelOption \<Rightarrow> int \<Rightarrow> InventoryError + TravelOption" where
  "reserveSeats_spec t n =
     (if status t \<noteq> ''ACTIVE'' \<or> n > available_seats t then Inl Unavailable
      else Inr (t\<lparr>available_seats := available_seats t - n,
                  status := (if available_seats t - n = 0 then ''FULL'' else status t)\<rparr>))"

text \<open>
  The invariant of a travel option in the specification's data model: the available
  seats lie between 0 and the total, and on the lineage of \<open>ACTIVE\<close> (status \<open>ACTIVE\<close>
  or \<open>FULL\<close>) the status is \<open>FULL\<close> exactly when no seat is available.
\<close>

definition seat_invariant :: "TravelOption \<Rightarrow> bool" where
  "seat_invariant t =
     (0 \<le> available_seats t \<and> available_seats t \<le> total_seats t
      \<and> (status t = ''ACTIVE'' \<or> status t = ''FULL''
           \<longrightarrow> (status t = ''FULL'') = (available_seats t = 0)))"

section \<open>Sample data\<close>

text \<open>A bus with 40 seats, 5 of them free, leaving at second 1 000 000 of the epoch.\<close>

definition sample_option :: TravelOption where
  "sample_option =
     \<lparr>travel_id = 1, travel_code = ''BS789'', travel_type = ''BUS'',
      company_name = ''RedLine'', source = ''Pune'', destination = ''Goa'',
      departure_time = 1000000000000, arrival_time = 1036000000000,
      price = 250, total_seats = 40, available_seats = 5,
      status = ''ACTIVE'', amenities = ''''\<rparr>"

text \<open>
  A posted booking form for two seats (the second name with blanks around it and a
  trailing empty line), the request that carries it, and what the environment supplies.
\<close>

definition sample_form :: BookingForm where
  "sample_form =
     \<lparr>f_number_of_seats = 2,
      f_passenger_names = ''Asha Rao'' @ [CHR 0x0A] @ '' Ravi '' @ [CHR 0x0A],
      f_contact_email = ''asha@example.com'', f_contact_phone = ''+919876543210'',
      f_special_requirements = [], f_other_fields_valid = True\<rparr>"

definition sample_request :: HttpRequest where
  "sample_request =
     \<lparr>req_method = ''POST'', req_user = 7, req_POST = sample_form,
      req_cancellation_reason = ''change of plans''\<rparr>"

definition sample_env :: Env where
  "sample_env =
     \<lparr>strftime_now = ''202501011200'', uuid4_str = ''3f2a9c1e-0000-4000-8000-000000000000'',
      uuid4_pk = 42\<rparr>"

text \<open>A confirmed booking of two seats on the sample bus, 500 in total.\<close>

definition sample_booking :: Booking where
  "sample_booking =
     \<lparr>booking_id = Some 9, booking_reference = ''BU2024123109003F2A'', user = 7,
      travel_option_id = 1, number_of_seats = 2, total_price = 500,
      booking_status = ''CONFIRMED'',
      passenger_details = [(''Asha Rao'', 1), (''Ravi'', 2)],
      contact_email = ''asha@example.com'', contact_phone = ''+919876543210'',
      special_requirements = [], payment_id = [],
      cancelled_at = None, cancellation_reason = []\<rparr>"



section \<open>Properties of the seat inventory\<close>

lemma update_availability_seats:
  "available_seats (update_availability t n) = available_seats t - n"
  by (simp add: update_availability_def Let_def)

lemma update_availability_status:
  "status (update_availability t n) = (if available_seats t - n = 0 then ''FULL'' else status t)"
  by (simp add: update_availability_def Let_def)

lemma cancel_seats_seats:
  "available_seats (cancel_seats t n) = available_seats t + n"
  by (simp add: cancel_seats_def Let_def)

lemma cancel_seats_status:
  "status (cancel_seats t n) =
     (if status t = ''FULL'' \<and> available_seats t + n > 0 then ''ACTIVE'' else status t)"
  by (simp add: cancel_seats_def Let_def)

lemma update_availability_total:
  "total_seats (update_availability t n) = total_seats t"
  by (simp add: update_availability_def Let_def)

lemma cancel_seats_total:
  "total_seats (cancel_seats t n) = total_seats t"
  by (simp add: cancel_seats_def Let_def)



text \<open>
  Claim C4. For a travel option with status \<open>ACTIVE\<close> and \<open>1 \<le> n \<le> available_seats\<close>,
  \<open>update_availability n\<close> followed by \<open>cancel_seats n\<close> gives back the
  \<open>available_seats\<close> and the \<open>status\<close> it started from (and with them the whole
  record, no other field being written).
\<close>

theorem reserve_release_roundtrip:
  assumes "status t = ''ACTIVE''" and "1 \<le> n" and "n \<le> available_seats t"
  shows "available_seats (cancel_seats (update_availability t n) n) = available_seats t
         \<and> status (cancel_seats (update_availability t n) n) = status t
         \<and> cancel_seats (update_availability t n) n = t"
proof -
  have seats: "available_seats (cancel_seats (update_availability t n) n) = available_seats t"
    by (simp add: cancel_seats_seats update_availability_seats)
  have pos: "available_seats t > 0"
    using assms by linarith
  have st: "status (cancel_seats (update_availability t n) n) = status t"
    using assms pos
    by (simp add: cancel_seats_status update_availability_status update_availability_seats)
  have "cancel_seats (update_availability t n) n = t"
    using assms pos by (simp add: cancel_seats_def update_availability_def Let_def)
  with seats st show ?thesis by simp
qed

theorem reserve_release_roundtrip_witness:
  "status sample_option = ''ACTIVE'' \<and> (1::int) \<le> 5 \<and> 5 \<le> available_seats sample_option
   \<and> status (update_availability sample_option 5) = ''FULL''
   \<and> cancel_seats (update_availability sample_option 5) 5 = sample_option
   \<and> cancel_seats (update_availability sample_option 2) 2 = sample_option"
proof -
  have a: "status sample_option = ''ACTIVE''" by (simp add: sample_option_def)
  have b: "5 \<le> available_seats sample_option" by (simp add: sample_option_def)
  have c: "2 \<le> available_seats sample_option" by (simp add: sample_option_def)
  have full: "status (update_availability sample_option 5) = ''FULL''"
    by (simp add: update_availability_status sample_option_def)
  from reserve_release_roundtrip [OF a _ b] reserve_release_roundtrip [OF a _ c] a b full
  show ?thesis by simp
qed

text \<open>
  Claim C5, as the specification states it: \<open>cancel_seats\<close> caps \<open>available_seats\<close>
  at \<open>total_seats\<close>. The source has no cap. On an option with all its 40 seats free,
  cancelling one seat leaves 41 free seats out of 40.
\<close>

theorem cancel_seats_cap_counterexample:
  "total_seats (cancel_seats (sample_option\<lparr>available_seats := 40\<rparr>) 1) = 40
   \<and> available_seats (cancel_seats (sample_option\<lparr>available_seats := 40\<rparr>) 1) = 41"
  by (simp add: cancel_seats_def Let_def sample_option_def)

text \<open>
  Claim C5, amended. For every travel option and every \<open>n\<close> (in particular every
  \<open>n \<ge> 1\<close>), \<open>cancel_seats\<close> adds exactly \<open>n\<close> to \<open>available_seats\<close> with no cap, so
  that the result exceeds \<open>total_seats\<close> whenever \<open>available_seats + n > total_seats\<close>;
  \<open>total_seats\<close> is not written; if the status was \<open>FULL\<close> and the resulting count is
  positive the status becomes \<open>ACTIVE\<close>, and otherwise the status is unchanged.
\<close>

theorem cancel_seats_adds_uncapped:
  "available_seats (cancel_seats t n) = available_seats t + n
   \<and> total_seats (cancel_seats t n) = total_seats t
   \<and> (available_seats t + n > total_seats t \<longrightarrow>
        available_seats (cancel_seats t n) > total_seats (cancel_seats t n))
   \<and> (status t = ''FULL'' \<and> available_seats (cancel_seats t n) > 0 \<longrightarrow>
        status (cancel_seats t n) = ''ACTIVE'')
   \<and> (\<not> (status t = ''FULL'' \<and> available_seats (cancel_seats t n) > 0) \<longrightarrow>
        status (cancel_seats t n) = status t)"
  by (simp add: cancel_seats_def Let_def)

theorem cancel_seats_adds_uncapped_witness:
  "available_seats (cancel_seats (sample_option\<lparr>available_seats := 39\<rparr>) 3) = 42
   \<and> total_seats (cancel_seats (sample_option\<lparr>available_seats := 39\<rparr>) 3) = 40
   \<and> status (cancel_seats (sample_option\<lparr>available_seats := 0, status := ''FULL''\<rparr>) 2) = ''ACTIVE''
   \<and> available_seats (cancel_seats (sample_option\<lparr>available_seats := 0, status := ''FULL''\<rparr>) 2) = 2
   \<and> status (cancel_seats (sample_option\<lparr>status := ''CANCELLED''\<rparr>) 2) = ''CANCELLED''"
  using cancel_seats_adds_uncapped [of "sample_option\<lparr>available_seats := 39\<rparr>" 3]
    cancel_seats_adds_uncapped [of "sample_option\<lparr>available_seats := 0, status := ''FULL''\<rparr>" 2]
    cancel_seats_adds_uncapped [of "sample_option\<lparr>status := ''CANCELLED''\<rparr>" 2]
  by (simp add: sample_option_def)

text \<open>
  Claim C3, as the specification states it: every call of \<open>update_availability\<close> or
  \<open>cancel_seats\<close> keeps \<open>available_seats \<le> total_seats\<close>, keeps "\<open>FULL\<close> exactly when
  no seat is available", and never changes a \<open>CANCELLED\<close> status. The source does none of
  the three without a condition on the call: \<open>cancel_seats\<close> takes a fully free option
  past its total; \<open>update_availability\<close> turns a \<open>CANCELLED\<close> option with 5 free seats
  into a \<open>FULL\<close> one when 5 seats are booked; and on a \<open>FULL\<close> option with no free seat
  it leaves the status \<open>FULL\<close> with \<open>-1\<close> available seats.
\<close>

theorem seat_invariant_counterexample:
  "seat_invariant (sample_option\<lparr>available_seats := 40\<rparr>)
   \<and> available_seats (cancel_seats (sample_option\<lparr>available_seats := 40\<rparr>) 1) = 41
   \<and> total_seats (cancel_seats (sample_option\<lparr>available_seats := 40\<rparr>) 1) = 40
   \<and> \<not> seat_invariant (cancel_seats (sample_option\<lparr>available_seats := 40\<rparr>) 1)
   \<and> seat_invariant (sample_option\<lparr>status := ''CANCELLED''\<rparr>)
   \<and> status (update_availability (sample_option\<lparr>status := ''CANCELLED''\<rparr>) 5) = ''FULL''
   \<and> seat_invariant (sample_option\<lparr>available_seats := 0, status := ''FULL''\<rparr>)
   \<and> available_seats
        (update_availability (sample_option\<lparr>available_seats := 0, status := ''FULL''\<rparr>) 1) = -1
   \<and> status
        (update_availability (sample_option\<lparr>available_seats := 0, status := ''FULL''\<rparr>) 1) = ''FULL''
   \<and> \<not> seat_invariant
          (update_availability (sample_option\<lparr>available_seats := 0, status := ''FULL''\<rparr>) 1)"
  by (simp add: seat_invariant_def cancel_seats_def update_availability_def Let_def
      sample_option_def)

text \<open>
  Claim C3, amended. \<open>update_availability\<close> preserves the invariant (available seats
  between 0 and the total; on the \<open>ACTIVE\<close> lineage, \<open>FULL\<close> exactly when no seat is
  available) when it is called as the booking view calls it, on an \<open>ACTIVE\<close> option with
  \<open>1 \<le> n \<le> available_seats\<close>; \<open>cancel_seats\<close> preserves it when \<open>n \<ge> 1\<close> and
  \<open>available_seats + n \<le> total_seats\<close>; \<open>cancel_seats\<close> never changes a \<open>CANCELLED\<close>
  status, and \<open>update_availability\<close> changes it only when the new count is exactly 0.
\<close>

theorem seat_invariant_preserved:
  "(seat_invariant t \<and> status t = ''ACTIVE'' \<and> 1 \<le> n \<and> n \<le> available_seats t
      \<longrightarrow> seat_invariant (update_availability t n))
   \<and> (seat_invariant t \<and> 1 \<le> n \<and> available_seats t + n \<le> total_seats t
      \<longrightarrow> seat_invariant (cancel_seats t n))
   \<and> (status t = ''CANCELLED'' \<longrightarrow> status (cancel_seats t n) = ''CANCELLED'')
   \<and> (status t = ''CANCELLED'' \<and> available_seats t - n \<noteq> 0
      \<longrightarrow> status (update_availability t n) = ''CANCELLED'')"
proof -
  have upd: "seat_invariant (update_availability t n)"
    if "seat_invariant t" "status t = ''ACTIVE''" "1 \<le> n" "n \<le> available_seats t"
    using that
    by (simp add: seat_invariant_def update_availability_seats update_availability_status
        update_availability_total)
  have can: "seat_invariant (cancel_seats t n)"
    if "seat_invariant t" "1 \<le> n" "available_seats t + n \<le> total_seats t"
    using that
    by (auto simp add: seat_invariant_def cancel_seats_seats cancel_seats_status cancel_seats_total)
  have c1: "status (cancel_seats t n) = ''CANCELLED''" if "status t = ''CANCELLED''"
    using that by (simp add: cancel_seats_status)
  have c2: "status (update_availability t n) = ''CANCELLED''"
    if "status t = ''CANCELLED''" "available_seats t - n \<noteq> 0"
    using that by (simp add: update_availability_status)
  from upd can c1 c2 show ?thesis by blast
qed

theorem seat_invariant_preserved_witness:
  "seat_invariant sample_option
   \<and> seat_invariant (update_availability sample_option 5)
   \<and> status (update_availability sample_option 5) = ''FULL''
   \<and> seat_invariant (cancel_seats (update_availability sample_option 5) 2)
   \<and> status (cancel_seats (update_availability sample_option 5) 2) = ''ACTIVE''
   \<and> status (cancel_seats (sample_option\<lparr>status := ''CANCELLED''\<rparr>) 2) = ''CANCELLED''
   \<and> status (update_availability (sample_option\<lparr>status := ''CANCELLED''\<rparr>) 2) = ''CANCELLED''"
proof -
  have inv0: "seat_invariant sample_option"
    by (simp add: seat_invariant_def sample_option_def)
  have pre1: "status sample_option = ''ACTIVE'' \<and> (1::int) \<le> 5 \<and> 5 \<le> available_seats sample_option"
    by (simp add: sample_option_def)
  from seat_invariant_preserved [of sample_option 5] inv0 pre1
  have inv1: "seat_invariant (update_availability sample_option 5)" by blast
  have pre2: "(1::int) \<le> 2
      \<and> available_seats (update_availability sample_option 5) + 2
          \<le> total_seats (update_availability sample_option 5)"
    by (simp add: update_availability_seats update_availability_total sample_option_def)
  from seat_invariant_preserved [of "update_availability sample_option 5" 2] inv1 pre2
  have inv2: "seat_invariant (cancel_seats (update_availability sample_option 5) 2)" by blast
  have pre3: "status (sample_option\<lparr>status := ''CANCELLED''\<rparr>) = ''CANCELLED''
      \<and> available_seats (sample_option\<lparr>status := ''CANCELLED''\<rparr>) - 2 \<noteq> 0"
    by (simp add: sample_option_def)
  from seat_invariant_preserved [of "sample_option\<lparr>status := ''CANCELLED''\<rparr>" 2] pre3
  have c: "status (cancel_seats (sample_option\<lparr>status := ''CANCELLED''\<rparr>) 2) = ''CANCELLED''
      \<and> status (update_availability (sample_option\<lparr>status := ''CANCELLED''\<rparr>) 2) = ''CANCELLED''"
    by blast
  have st1: "status (update_availability sample_option 5) = ''FULL''"
    by (simp add: update_availability_status sample_option_def)
  have st2: "status (cancel_seats (update_availability sample_option 5) 2) = ''ACTIVE''"
    by (simp add: cancel_seats_status update_availability_status update_availability_seats
        sample_option_def)
  from inv0 inv1 inv2 c st1 st2 show ?thesis by simp
qed

section \<open>Properties of the refund policy\<close>









section \<open>Properties of cancellation\<close>

text \<open>
  Claim C7. \<open>cancel\<close> on a booking whose status is not \<open>CONFIRMED\<close> (an already
  \<open>CANCELLED\<close> one in particular) returns \<open>False\<close> and leaves the booking and the
  travel option it refers to exactly as they were: no field is written and no seat is
  released.
\<close>

theorem cancel_not_confirmed_unchanged:
  assumes "booking_status b \<noteq> ''CONFIRMED''"
  shows "cancel b t reason now env = (False, b, t)"
  using assms by (simp add: cancel_def)

theorem cancel_not_confirmed_unchanged_witness:
  "cancel (sample_booking\<lparr>booking_status := ''CANCELLED''\<rparr>) sample_option ''again''
       892000000000 sample_env
     = (False, sample_booking\<lparr>booking_status := ''CANCELLED''\<rparr>, sample_option)
   \<and> cancel (sample_booking\<lparr>booking_status := ''PENDING''\<rparr>) sample_option ''again''
       892000000000 sample_env
     = (False, sample_booking\<lparr>booking_status := ''PENDING''\<rparr>, sample_option)"
proof -
  have a: "booking_status (sample_booking\<lparr>booking_status := ''CANCELLED''\<rparr>) \<noteq> ''CONFIRMED''"
    by simp
  have b: "booking_status (sample_booking\<lparr>booking_status := ''PENDING''\<rparr>) \<noteq> ''CONFIRMED''"
    by simp
  from cancel_not_confirmed_unchanged [OF a] cancel_not_confirmed_unchanged [OF b]
  show ?thesis by simp
qed

section \<open>Properties of booking and saving\<close>

lemma save_fields:
  "number_of_seats (save b t env) = number_of_seats b"
  "booking_status (save b t env) = booking_status b"
  "cancelled_at (save b t env) = cancelled_at b"
  "cancellation_reason (save b t env) = cancellation_reason b"
  "booking_id (save b t env) \<noteq> None"
  by (simp_all add: save_def Let_def)

lemma save_total_price:
  "total_price (save b t env) =
     (if booking_id b = None then price t * of_int (number_of_seats b) else total_price b)"
  by (auto simp add: save_def Let_def)

lemma is_valid_seats:
  "is_valid form \<Longrightarrow> 1 \<le> f_number_of_seats form \<and> f_number_of_seats form \<le> 10"
  by (simp add: is_valid_def)

lemma form_save_fields:
  "number_of_seats (form_save form env) = f_number_of_seats form"
  "booking_id (form_save form env) = Some (uuid4_pk env)"
  by (simp_all add: form_save_def Let_def)

text \<open>
  The view in one piece: the three ways out without a booking, and the booking
  \<open>new_booking\<close> it stores otherwise.
\<close>

lemma book_travel_view_eq:
  "book_travel_view (Some t) request env =
     (if \<not> is_available t
      then Inr (Redirect_travel_detail, Some Error_no_longer_available, t, None)
      else if req_method request = ''POST'' \<and> is_valid (req_POST request)
      then (if available_seats t < f_number_of_seats (req_POST request)
            then Inr (Redirect_travel_detail,
                      Some (Error_only_seats_available (available_seats t)), t, None)
            else Inr (Redirect_booking_detail,
                      Some (Success_booking_confirmed
                              (booking_reference (new_booking t request env))),
                      update_availability t (f_number_of_seats (req_POST request)),
                      Some (new_booking t request env)))
      else Inr (Render_book_travel, None, t, None))"
  by (simp add: book_travel_view_def new_booking_def Let_def form_save_fields save_fields)

lemma new_booking_fields:
  "number_of_seats (new_booking t request env) = f_number_of_seats (req_POST request)"
  "total_price (new_booking t request env) = price t * of_int (f_number_of_seats (req_POST request))"
  "booking_id (new_booking t request env) \<noteq> None"
  by (simp_all add: new_booking_def save_fields save_total_price form_save_fields)

lemma sample_valid: "req_method sample_request = ''POST'' \<and> is_valid (req_POST sample_request)"
  by code_simp

lemma sample_new_booking:
  "new_booking sample_option sample_request sample_env =
     \<lparr>booking_id = Some 42, booking_reference = ''BU2025010112003F2A'', user = 7,
      travel_option_id = 1, number_of_seats = 2, total_price = 500,
      booking_status = ''PENDING'',
      passenger_details = [(''Asha Rao'', 1), (''Ravi'', 2)],
      contact_email = ''asha@example.com'', contact_phone = ''+919876543210'',
      special_requirements = [], payment_id = [],
      cancelled_at = None, cancellation_reason = []\<rparr>"
  by code_simp

text \<open>
  Claim C1, as the specification states it: reserving \<open>n\<close> seats with
  \<open>update_availability\<close> fails with \<open>InventoryError::Unavailable\<close> when the status is
  not \<open>ACTIVE\<close> or \<open>n\<close> exceeds the available seats. \<open>update_availability\<close> has no
  failure: where the specification's \<open>reserveSeats\<close> is \<open>Unavailable\<close>, 7 seats out of 5
  or one seat of a \<open>CANCELLED\<close> option, it subtracts all the same, down to \<open>-2\<close>
  available seats in the first case.
\<close>

theorem reserve_unavailable_counterexample:
  "reserveSeats_spec sample_option 7 = Inl Unavailable
   \<and> available_seats (update_availability sample_option 7) = -2
   \<and> status (update_availability sample_option 7) = ''ACTIVE''
   \<and> reserveSeats_spec (sample_option\<lparr>status := ''CANCELLED''\<rparr>) 1 = Inl Unavailable
   \<and> available_seats (update_availability (sample_option\<lparr>status := ''CANCELLED''\<rparr>) 1) = 4"
  by (simp add: reserveSeats_spec_def update_availability_def Let_def sample_option_def)

text \<open>
  Claim C1, amended. The guard is in \<open>book_travel_view\<close>, the one caller of
  \<open>update_availability\<close>. For every travel option and every valid posted form, with
  seat count \<open>n\<close> (validity makes \<open>1 \<le> n \<le> 10\<close>):
  \<^item> if the status is not \<open>ACTIVE\<close> or \<open>n\<close> exceeds the available seats, the view answers
    with an error message, stores no booking and leaves the travel option as it was;
  \<^item> otherwise it stores a booking of \<open>n\<close> seats and calls \<open>update_availability\<close>, which
    takes exactly \<open>n\<close> from the available seats, leaves them non-negative, and leaves the
    status \<open>FULL\<close> exactly when they are 0.
  And whatever the request, the view changes the travel option or stores a booking only
  in the second case.
\<close>

theorem book_travel_view_guards_reservation:
  "(req_method request = ''POST'' \<and> is_valid (req_POST request)
      \<and> (status t \<noteq> ''ACTIVE'' \<or> f_number_of_seats (req_POST request) > available_seats t)
     \<longrightarrow> (\<exists>e. book_travel_view (Some t) request env = Inr (Redirect_travel_detail, Some e, t, None)
              \<and> (e = Error_no_longer_available
                  \<or> e = Error_only_seats_available (available_seats t))))
   \<and> (req_method request = ''POST'' \<and> is_valid (req_POST request)
      \<and> status t = ''ACTIVE'' \<and> f_number_of_seats (req_POST request) \<le> available_seats t
     \<longrightarrow> (\<exists>b. book_travel_view (Some t) request env =
                 Inr (Redirect_booking_detail,
                      Some (Success_booking_confirmed (booking_reference b)),
                      update_availability t (f_number_of_seats (req_POST request)), Some b)
              \<and> number_of_seats b = f_number_of_seats (req_POST request))
         \<and> available_seats (update_availability t (f_number_of_seats (req_POST request)))
             = available_seats t - f_number_of_seats (req_POST request)
         \<and> 0 \<le> available_seats (update_availability t (f_number_of_seats (req_POST request)))
         \<and> (status (update_availability t (f_number_of_seats (req_POST request))) = ''FULL'')
             = (available_seats (update_availability t (f_number_of_seats (req_POST request))) = 0))
   \<and> (\<forall>resp msg t' bo.
        book_travel_view (Some t) request env = Inr (resp, msg, t', bo)
        \<and> (t' \<noteq> t \<or> bo \<noteq> None)
        \<longrightarrow> status t = ''ACTIVE'' \<and> 1 \<le> f_number_of_seats (req_POST request)
            \<and> f_number_of_seats (req_POST request) \<le> available_seats t
            \<and> t' = update_availability t (f_number_of_seats (req_POST request)))"
proof (intro conjI impI allI)
  assume a: "req_method request = ''POST'' \<and> is_valid (req_POST request)
      \<and> (status t \<noteq> ''ACTIVE'' \<or> f_number_of_seats (req_POST request) > available_seats t)"
  then have "1 \<le> f_number_of_seats (req_POST request)" by (simp add: is_valid_seats)
  with a show "\<exists>e. book_travel_view (Some t) request env = Inr (Redirect_travel_detail, Some e, t, None)
              \<and> (e = Error_no_longer_available
                  \<or> e = Error_only_seats_available (available_seats t))"
    by (auto simp add: book_travel_view_eq is_available_def)
next
  assume a: "req_method request = ''POST'' \<and> is_valid (req_POST request)
      \<and> status t = ''ACTIVE'' \<and> f_number_of_seats (req_POST request) \<le> available_seats t"
  then have n: "1 \<le> f_number_of_seats (req_POST request)" by (simp add: is_valid_seats)
  with a have av: "is_available t" by (simp add: is_available_def)
  from a av have "book_travel_view (Some t) request env =
      Inr (Redirect_booking_detail,
           Some (Success_booking_confirmed (booking_reference (new_booking t request env))),
           update_availability t (f_number_of_seats (req_POST request)),
           Some (new_booking t request env))"
    by (simp add: book_travel_view_eq)
  then show "\<exists>b. book_travel_view (Some t) request env =
                 Inr (Redirect_booking_detail,
                      Some (Success_booking_confirmed (booking_reference b)),
                      update_availability t (f_number_of_seats (req_POST request)), Some b)
              \<and> number_of_seats b = f_number_of_seats (req_POST request)"
    using new_booking_fields(1) by blast
  show "available_seats (update_availability t (f_number_of_seats (req_POST request)))
             = available_seats t - f_number_of_seats (req_POST request)"
    by (rule update_availability_seats)
  from a show "0 \<le> available_seats (update_availability t (f_number_of_seats (req_POST request)))"
    by (simp add: update_availability_seats)
  from a show "(status (update_availability t (f_number_of_seats (req_POST request))) = ''FULL'')
             = (available_seats (update_availability t (f_number_of_seats (req_POST request))) = 0)"
    by (simp add: update_availability_seats update_availability_status)
next
  fix resp msg t' bo
  assume a: "book_travel_view (Some t) request env = Inr (resp, msg, t', bo)
        \<and> (t' \<noteq> t \<or> bo \<noteq> None)"
  then have acc: "is_available t \<and> req_method request = ''POST'' \<and> is_valid (req_POST request)
      \<and> \<not> available_seats t < f_number_of_seats (req_POST request)
      \<and> t' = update_availability t (f_number_of_seats (req_POST request))"
    by (auto simp add: book_travel_view_eq split: if_splits)
  then show "status t = ''ACTIVE''" by (simp add: is_available_def)
  from acc show "1 \<le> f_number_of_seats (req_POST request)" by (simp add: is_valid_seats)
  from acc show "f_number_of_seats (req_POST request) \<le> available_seats t" by simp
  from acc show "t' = update_availability t (f_number_of_seats (req_POST request))" by simp
qed

theorem book_travel_view_guards_reservation_witness:
  "req_method sample_request = ''POST'' \<and> is_valid (req_POST sample_request)
   \<and> f_number_of_seats (req_POST sample_request) = 2
   \<and> available_seats (update_availability sample_option 2) = 3
   \<and> status (update_availability sample_option 2) = ''ACTIVE''
   \<and> book_travel_view (Some sample_option) sample_request sample_env =
       Inr (Redirect_booking_detail, Some (Success_booking_confirmed ''BU2025010112003F2A''),
            update_availability sample_option 2,
            Some (new_booking sample_option sample_request sample_env))
   \<and> book_travel_view (Some (sample_option\<lparr>available_seats := 1\<rparr>)) sample_request sample_env =
       Inr (Redirect_travel_detail, Some (Error_only_seats_available 1),
            sample_option\<lparr>available_seats := 1\<rparr>, None)
   \<and> book_travel_view (Some (sample_option\<lparr>status := ''CANCELLED''\<rparr>)) sample_request sample_env =
       Inr (Redirect_travel_detail, Some Error_no_longer_available,
            sample_option\<lparr>status := ''CANCELLED''\<rparr>, None)"
proof -
  have n: "f_number_of_seats (req_POST sample_request) = 2"
    by (simp add: sample_request_def sample_form_def)
  have t0: "status sample_option = ''ACTIVE''" "available_seats sample_option = 5"
    by (simp_all add: sample_option_def)
  have ok: "status sample_option = ''ACTIVE''
      \<and> f_number_of_seats (req_POST sample_request) \<le> available_seats sample_option"
    by (simp add: n t0)
  have few: "status (sample_option\<lparr>available_seats := 1\<rparr>) \<noteq> ''ACTIVE''
      \<or> f_number_of_seats (req_POST sample_request)
           > available_seats (sample_option\<lparr>available_seats := 1\<rparr>)"
    by (simp add: n)
  have off: "status (sample_option\<lparr>status := ''CANCELLED''\<rparr>) \<noteq> ''ACTIVE''
      \<or> f_number_of_seats (req_POST sample_request)
           > available_seats (sample_option\<lparr>status := ''CANCELLED''\<rparr>)"
    by simp
  have avail: "is_available sample_option" "is_available (sample_option\<lparr>available_seats := 1\<rparr>)"
    "\<not> is_available (sample_option\<lparr>status := ''CANCELLED''\<rparr>)"
    by (simp_all add: is_available_def t0)
  have ref: "booking_reference (new_booking sample_option sample_request sample_env)
      = ''BU2025010112003F2A''"
    by (simp add: sample_new_booking)
  from book_travel_view_guards_reservation
         [where request = sample_request and t = sample_option and env = sample_env]
       sample_valid ok
  have r1: "available_seats (update_availability sample_option 2) = 3
      \<and> (status (update_availability sample_option 2) = ''FULL'')
          = (available_seats (update_availability sample_option 2) = 0)"
    by (simp add: n t0)
  then have r1': "status (update_availability sample_option 2) = ''ACTIVE''"
    by (simp add: update_availability_status t0)
  from book_travel_view_guards_reservation
         [where request = sample_request and t = "sample_option\<lparr>available_seats := 1\<rparr>"
            and env = sample_env]
       sample_valid few
  have r2: "\<exists>e. book_travel_view (Some (sample_option\<lparr>available_seats := 1\<rparr>)) sample_request
                 sample_env
               = Inr (Redirect_travel_detail, Some e, sample_option\<lparr>available_seats := 1\<rparr>, None)"
    by blast
  from book_travel_view_guards_reservation
         [where request = sample_request and t = "sample_option\<lparr>status := ''CANCELLED''\<rparr>"
            and env = sample_env]
       sample_valid off
  have r3: "\<exists>e. book_travel_view (Some (sample_option\<lparr>status := ''CANCELLED''\<rparr>)) sample_request
                 sample_env
               = Inr (Redirect_travel_detail, Some e, sample_option\<lparr>status := ''CANCELLED''\<rparr>, None)"
    by blast
  have v1: "book_travel_view (Some sample_option) sample_request sample_env =
       Inr (Redirect_booking_detail, Some (Success_booking_confirmed ''BU2025010112003F2A''),
            update_availability sample_option 2,
            Some (new_booking sample_option sample_request sample_env))"
    using sample_valid avail(1) by (simp add: book_travel_view_eq n t0 ref)
  from r2 have v2: "book_travel_view (Some (sample_option\<lparr>available_seats := 1\<rparr>)) sample_request
        sample_env =
       Inr (Redirect_travel_detail, Some (Error_only_seats_available 1),
            sample_option\<lparr>available_seats := 1\<rparr>, None)"
    using sample_valid avail(2) by (simp add: book_travel_view_eq n)
  from r3 have v3: "book_travel_view (Some (sample_option\<lparr>status := ''CANCELLED''\<rparr>)) sample_request
        sample_env =
       Inr (Redirect_travel_detail, Some Error_no_longer_available,
            sample_option\<lparr>status := ''CANCELLED''\<rparr>, None)"
    using avail(3) by (simp add: book_travel_view_eq)
  from sample_valid n r1 r1' v1 v2 v3 show ?thesis by simp
qed


lemma cancel_succeeds_iff:
  "fst (cancel b t reason now env) = (booking_status b = ''CONFIRMED'')"
  by (simp add: cancel_def Let_def)






text \<open>
  Claim C9. The booking that \<open>book_travel_view\<close> stores has \<open>total_price\<close> equal to
  the price of its travel option times its \<open>number_of_seats\<close> (the view assigns it just
  before the first \<open>save\<close>, and \<open>save\<close> computes the same product for a booking that
  has no primary key yet). After a \<open>save\<close> a booking has a primary key, and on a booking
  with a primary key neither \<open>save\<close> nor \<open>cancel\<close> nor \<open>confirm\<close> changes
  \<open>total_price\<close>, whatever travel option (\<open>t2\<close>, at whatever price) they are given.
\<close>

theorem total_price_fixed_at_creation:
  "(\<forall>resp msg t' b. book_travel_view (Some t) request env = Inr (resp, msg, t', Some b)
        \<longrightarrow> total_price b = price t * of_int (number_of_seats b) \<and> booking_id b \<noteq> None)
   \<and> (booking_id b0 = None \<longrightarrow>
        total_price (save b0 t env) = price t * of_int (number_of_seats b0))
   \<and> booking_id (save b0 t env) \<noteq> None
   \<and> (booking_id b0 \<noteq> None \<longrightarrow>
          total_price (save b0 t2 env2) = total_price b0
        \<and> total_price (fst (snd (cancel b0 t2 reason now env2))) = total_price b0
        \<and> total_price (snd (confirm b0 t2 env2)) = total_price b0)"
proof -
  have v: "total_price b = price t * of_int (number_of_seats b) \<and> booking_id b \<noteq> None"
    if "book_travel_view (Some t) request env = Inr (resp, msg, t', Some b)" for resp msg t' b
  proof -
    from that have "b = new_booking t request env"
      by (simp add: book_travel_view_eq split: if_splits)
    then show ?thesis by (simp add: new_booking_fields)
  qed
  have s0: "total_price (save b0 t env) = price t * of_int (number_of_seats b0)"
    if "booking_id b0 = None"
    using that by (simp add: save_total_price)
  have s1: "booking_id (save b0 t env) \<noteq> None" by (rule save_fields)
  have s2: "total_price (save b0 t2 env2) = total_price b0
        \<and> total_price (fst (snd (cancel b0 t2 reason now env2))) = total_price b0
        \<and> total_price (snd (confirm b0 t2 env2)) = total_price b0"
    if "booking_id b0 \<noteq> None"
    using that by (auto simp add: save_total_price cancel_def confirm_def Let_def)
  from v s0 s1 s2 show ?thesis by blast
qed

theorem total_price_fixed_at_creation_witness:
  "book_travel_view (Some sample_option) sample_request sample_env =
       Inr (Redirect_booking_detail, Some (Success_booking_confirmed ''BU2025010112003F2A''),
            update_availability sample_option 2,
            Some (new_booking sample_option sample_request sample_env))
   \<and> total_price (new_booking sample_option sample_request sample_env) = 500
   \<and> price sample_option * of_int (number_of_seats
         (new_booking sample_option sample_request sample_env)) = 500
   \<and> total_price (save (sample_booking\<lparr>booking_id := None\<rparr>) sample_option sample_env) = 500
   \<and> total_price (save sample_booking (sample_option\<lparr>price := 999\<rparr>) sample_env) = 500
   \<and> total_price (fst (snd (cancel sample_booking (sample_option\<lparr>price := 999\<rparr>) ''late''
         892000000000 sample_env))) = 500
   \<and> total_price (snd (confirm (sample_booking\<lparr>booking_status := ''PENDING''\<rparr>)
         (sample_option\<lparr>price := 999\<rparr>) sample_env)) = 500"
proof -
  have v: "book_travel_view (Some sample_option) sample_request sample_env =
       Inr (Redirect_booking_detail, Some (Success_booking_confirmed ''BU2025010112003F2A''),
            update_availability sample_option 2,
            Some (new_booking sample_option sample_request sample_env))"
    by code_simp
  have pk: "booking_id sample_booking \<noteq> None" "total_price sample_booking = 500"
    "booking_id (sample_booking\<lparr>booking_status := ''PENDING''\<rparr>) \<noteq> None"
    "booking_id (sample_booking\<lparr>booking_id := None\<rparr>) = None"
    "number_of_seats (sample_booking\<lparr>booking_id := None\<rparr>) = 2"
    by (simp_all add: sample_booking_def)
  have pr: "price sample_option = 250" by (simp add: sample_option_def)
  have seats: "number_of_seats (new_booking sample_option sample_request sample_env) = 2"
    by (simp add: sample_new_booking)
  from total_price_fixed_at_creation
         [where t = sample_option and request = sample_request and env = sample_env
            and ?b0.0 = sample_booking and ?t2.0 = "sample_option\<lparr>price := 999\<rparr>"
            and ?env2.0 = sample_env and reason = "''late''" and now = 892000000000] v pk
  have a: "total_price (new_booking sample_option sample_request sample_env)
        = price sample_option
            * of_int (number_of_seats (new_booking sample_option sample_request sample_env))
      \<and> total_price (save sample_booking (sample_option\<lparr>price := 999\<rparr>) sample_env) = 500
      \<and> total_price (fst (snd (cancel sample_booking (sample_option\<lparr>price := 999\<rparr>) ''late''
            892000000000 sample_env))) = 500"
    by simp
  from total_price_fixed_at_creation
         [where t = sample_option and request = sample_request and env = sample_env
            and ?b0.0 = "sample_booking\<lparr>booking_status := ''PENDING''\<rparr>"
            and ?t2.0 = "sample_option\<lparr>price := 999\<rparr>"
            and ?env2.0 = sample_env and reason = "''late''" and now = 892000000000] pk
  have b: "total_price (snd (confirm (sample_booking\<lparr>booking_status := ''PENDING''\<rparr>)
         (sample_option\<lparr>price := 999\<rparr>) sample_env)) = 500"
    by simp
  from total_price_fixed_at_creation
         [where t = sample_option and request = sample_request and env = sample_env
            and ?b0.0 = "sample_booking\<lparr>booking_id := None\<rparr>"
            and ?t2.0 = "sample_option\<lparr>price := 999\<rparr>"
            and ?env2.0 = sample_env and reason = "''late''" and now = 892000000000] pk pr
  have c: "total_price (save (sample_booking\<lparr>booking_id := None\<rparr>) sample_option sample_env) = 500"
    by simp
  from v a b c pr seats show ?thesis by simp
qed

end
